theory Spec2Isabelle
  imports Main "HOL-Library.Sublist" "HOL-Library.Multiset"
begin

section \<open>Python values, exceptions and strings\<close>

text \<open>
  A Python \<^verbatim>\<open>str\<close> is the list of its Unicode code points. \<open>ascii\<close> writes a string of
  the source that holds ASCII characters only.
\<close>

type_synonym pystr = "nat list"

definition ascii :: "string \<Rightarrow> pystr" where
  "ascii s = map of_char s"

text \<open>
  The values the source handles dynamically (\<^verbatim>\<open>message.content\<close>, the parts of a
  structured content, the result of \<^verbatim>\<open>ast.literal_eval\<close>) are Python objects. \<open>PObj\<close>
  stands for an object of any class not listed, named by a label. A dict is the list of
  its items in insertion order.
\<close>

datatype pyval =
    PNone
  | PBool bool
  | PInt int
  | PStr pystr
  | PList "pyval list"
  | PTuple "pyval list"
  | PDict "(pyval \<times> pyval) list"
  | PObj pystr

text \<open>
  An exception is its class and the text \<^verbatim>\<open>str(e)\<close> gives. \<open>ValueError\<close> is kept apart
  because \<^verbatim>\<open>chat\<close> catches it apart from every other class.
\<close>

datatype exn_class =
    ValueError | KeyError | IndexError | TypeError | SyntaxError | OperationalError
  | RuntimeError | RecursionError

datatype py_error = Raise exn_class pystr

fun error_text :: "py_error \<Rightarrow> pystr" where
  "error_text (Raise c s) = s"

fun error_class :: "py_error \<Rightarrow> exn_class" where
  "error_class (Raise c s) = c"

text \<open>\<^verbatim>\<open>try: body except Exception as e: handler(e)\<close>, on a body already run.\<close>

definition try_except :: "py_error + 'a \<Rightarrow> (py_error \<Rightarrow> py_error + 'a) \<Rightarrow> py_error + 'a" where
  "try_except body handler = (case body of Inl e \<Rightarrow> handler e | Inr v \<Rightarrow> Inr v)"

text \<open>Sequencing of a step that may raise with the rest of the function.\<close>

definition and_then :: "py_error + 'a \<Rightarrow> ('a \<Rightarrow> py_error + 'b) \<Rightarrow> py_error + 'b" where
  "and_then r f = (case r of Inl e \<Rightarrow> Inl e | Inr v \<Rightarrow> f v)"

text \<open>
  Python's built-ins and its Unicode tables are not the repository's. They are taken as
  they are, whatever they are: \<^verbatim>\<open>str.isspace\<close> on one character, \<^verbatim>\<open>str.upper\<close>,
  \<^verbatim>\<open>str.lower\<close> and \<^verbatim>\<open>str.title\<close> on a string, \<^verbatim>\<open>str(x)\<close> on a value (which runs the
  object's own \<^verbatim>\<open>__str__\<close> and may raise), and \<^verbatim>\<open>ast.literal_eval\<close> on the texts other
  than the two fixed in \<open>literal_eval\<close> below. Nothing is assumed of them.
\<close>

record python =
  is_space :: "nat \<Rightarrow> bool"
  str_upper :: "pystr \<Rightarrow> pystr"
  str_lower :: "pystr \<Rightarrow> pystr"
  str_title :: "pystr \<Rightarrow> pystr"
  py_str :: "pyval \<Rightarrow> py_error + pystr"
  literal_eval_other :: "pystr \<Rightarrow> py_error + pyval"

text \<open>\<^verbatim>\<open>s.strip()\<close>: the leading and the trailing white space characters are removed.\<close>

definition strip :: "python \<Rightarrow> pystr \<Rightarrow> pystr" where
  "strip p s = rev (dropWhile (is_space p) (rev (dropWhile (is_space p) s)))"

text \<open>\<^verbatim>\<open>sep.join(parts)\<close>.\<close>

fun join :: "pystr \<Rightarrow> pystr list \<Rightarrow> pystr" where
  "join sep [] = []"
| "join sep [part] = part"
| "join sep (part # q # parts) = part @ sep @ join sep (q # parts)"

text \<open>\<^verbatim>\<open>key in d\<close>, \<^verbatim>\<open>d.get(key)\<close> and \<^verbatim>\<open>d[key]\<close> on a dict; the last raises KeyError.\<close>

definition dict_contains :: "(pyval \<times> pyval) list \<Rightarrow> pyval \<Rightarrow> bool" where
  "dict_contains d k = (map_of d k \<noteq> None)"

definition dict_get :: "(pyval \<times> pyval) list \<Rightarrow> pyval \<Rightarrow> pyval" where
  "dict_get d k = (case map_of d k of None \<Rightarrow> PNone | Some v \<Rightarrow> v)"

definition dict_item :: "(pyval \<times> pyval) list \<Rightarrow> pyval \<Rightarrow> py_error + pyval" where
  "dict_item d k = (case map_of d k of None \<Rightarrow> Inl (Raise KeyError (ascii ''key'')) | Some v \<Rightarrow> Inr v)"

section \<open>Messages\<close>

text \<open>
  A message of the invocation loop: its class, its \<^verbatim>\<open>content\<close> attribute (\<open>None\<close> when
  the object has no such attribute, \<open>Some PNone\<close> when it is Python's None), its id, the
  tool calls an AIMessage requests and the call id a ToolMessage answers.
\<close>

datatype message_class = HumanMessage | AIMessage | ToolMessage | OtherMessage

record tool_call =
  tc_id :: "pystr option"
  tc_name :: "pystr option"
  tc_args :: "(pyval \<times> pyval) list option"

record message =
  msg_class :: message_class
  content :: "pyval option"
  msg_id :: "pystr option"
  tool_calls :: "tool_call list"
  tool_call_id :: pystr

definition no_response :: pystr where
  "no_response = ascii ''No response generated''"

text \<open>One item of a list content, in \<^verbatim>\<open>extract_message_content\<close>.\<close>

fun item_text :: "python \<Rightarrow> pyval \<Rightarrow> py_error + pystr" where
  "item_text p (PDict item) =
     (if dict_contains item (PStr (ascii ''text''))
      then and_then (dict_item item (PStr (ascii ''text''))) (py_str p)
      else if dict_get item (PStr (ascii ''type'')) = PStr (ascii ''text'')
              \<and> dict_contains item (PStr (ascii ''text''))
      then and_then (dict_item item (PStr (ascii ''text''))) (py_str p)
      else py_str p (PDict item))"
| "item_text p (PStr s) = Inr s"
| "item_text p item = py_str p item"

text \<open>
  The loop \<^verbatim>\<open>for item in content: text_parts.append(...)\<close>; it ends at the first item
  whose \<^verbatim>\<open>str\<close> raises.
\<close>

fun text_parts :: "python \<Rightarrow> pyval list \<Rightarrow> py_error + pystr list" where
  "text_parts p [] = Inr []"
| "text_parts p (item # items) =
     and_then (item_text p item) (\<lambda>part.
     and_then (text_parts p items) (\<lambda>parts. Inr (part # parts)))"

definition extract_message_content :: "python \<Rightarrow> message option \<Rightarrow> py_error + pystr" where
  "extract_message_content p m =
     (case m of
        None \<Rightarrow> Inr no_response
      | Some msg \<Rightarrow>
          (case content msg of
             None \<Rightarrow> Inr no_response
           | Some PNone \<Rightarrow> Inr no_response
           | Some (PStr s) \<Rightarrow> Inr s
           | Some (PList items) \<Rightarrow>
               and_then (text_parts p items) (\<lambda>parts.
                 Inr (if parts \<noteq> [] then join (ascii '' '') parts else no_response))
           | Some v \<Rightarrow> py_str p v))"

section \<open>Thread titles\<close>

definition new_conversation :: pystr where
  "new_conversation = ascii ''New Conversation''"

definition generate_thread_title :: "python \<Rightarrow> pystr \<Rightarrow> pystr" where
  "generate_thread_title p first_message =
     (let t0 = strip p first_message;
          t1 = (if length t0 > 50 then take 47 t0 @ ascii ''...'' else t0);
          t2 = (case t1 of
                  [] \<Rightarrow> t1
                | c # cs \<Rightarrow> if length t1 > 1 then str_upper p [c] @ cs else str_upper p t1)
      in if t2 \<noteq> [] then t2 else new_conversation)"

section \<open>The dataset connection\<close>

text \<open>
  The data engine is an external collaborator: \<^verbatim>\<open>db.run(query)\<close> gives the text of the
  result rows or raises, as the engine decides.
\<close>

record database =
  db_run :: "pystr \<Rightarrow> py_error + pystr"

definition quote :: nat where
  "quote = 39"

text \<open>The three fixed pieces of the f-string in \<^verbatim>\<open>customer_exists\<close>, line breaks included.\<close>

definition query_head :: pystr where
  "query_head =
     ascii ''\<newline>    SELECT \<newline>    EXISTS (\<newline>        SELECT 1 \<newline>        FROM Customer\<newline>        WHERE FirstName = '' @ [quote]"

definition query_mid :: pystr where
  "query_mid = [quote] @ ascii '' \<newline>          AND LastName = '' @ [quote]"

definition query_tail :: pystr where
  "query_tail = [quote] @ ascii ''\<newline>    ) AS CustomerExists;\<newline>    ''"

definition exists_query :: "pystr \<Rightarrow> pystr \<Rightarrow> pystr" where
  "exists_query f l = query_head @ f @ query_mid @ l @ query_tail"

text \<open>
  What the engine prints for the one row of a SELECT EXISTS (...) statement: 1 when the
  inner SELECT has a row, 0 when it has none.
\<close>

definition exists_answer :: "bool \<Rightarrow> pystr" where
  "exists_answer b = (if b then ascii ''[(1,)]'' else ascii ''[(0,)]'')"

text \<open>
  \<^verbatim>\<open>ast.literal_eval\<close>: Python's value on the two texts above; on any other text its
  outcome is the built-in's.
\<close>

definition literal_eval :: "python \<Rightarrow> pystr \<Rightarrow> py_error + pyval" where
  "literal_eval p s =
     (if s = ascii ''[(1,)]'' then Inr (PList [PTuple [PInt 1]])
      else if s = ascii ''[(0,)]'' then Inr (PList [PTuple [PInt 0]])
      else literal_eval_other p s)"

text \<open>\<^verbatim>\<open>x == 0\<close> on a value: true of the integer 0 and of False.\<close>

definition equals_zero :: "pyval \<Rightarrow> bool" where
  "equals_zero v = (v = PInt 0 \<or> v = PBool False)"

text \<open>\<^verbatim>\<open>x[0]\<close> on a value, with the exceptions Python raises.\<close>

fun index0 :: "pyval \<Rightarrow> py_error + pyval" where
  "index0 (PList (x # xs)) = Inr x"
| "index0 (PList []) = Inl (Raise IndexError (ascii ''list index out of range''))"
| "index0 (PTuple (x # xs)) = Inr x"
| "index0 (PTuple []) = Inl (Raise IndexError (ascii ''tuple index out of range''))"
| "index0 (PStr (c # cs)) = Inr (PStr [c])"
| "index0 (PStr []) = Inl (Raise IndexError (ascii ''string index out of range''))"
| "index0 (PDict d) =
     (case find (\<lambda>kv. equals_zero (fst kv)) d of
        Some kv \<Rightarrow> Inr (snd kv)
      | None \<Rightarrow> Inl (Raise KeyError (ascii ''0'')))"
| "index0 v = Inl (Raise TypeError (ascii ''object is not subscriptable''))"

definition customer_exists :: "python \<Rightarrow> database \<Rightarrow> pystr \<Rightarrow> pystr \<Rightarrow> py_error + bool" where
  "customer_exists p d first_name last_name =
     (let query = exists_query (str_title p first_name) (str_title p last_name) in
      and_then (db_run d query) (\<lambda>printed.
      and_then (literal_eval p printed) (\<lambda>res.
      and_then (index0 res) (\<lambda>row.
      and_then (index0 row) (\<lambda>bool_result.
        Inr (if equals_zero bool_result then False else True))))))"

section \<open>The agent's tools and hooks\<close>

record RuntimeContext =
  db :: database
  user_first_name :: pystr
  user_last_name :: pystr
  has_valid_name :: bool

definition execute_sql :: "RuntimeContext \<Rightarrow> pystr \<Rightarrow> py_error + pystr" where
  "execute_sql runtime_ctx query =
     try_except (db_run (db runtime_ctx) query) (\<lambda>e. Inr (ascii ''Error: '' @ error_text e))"

text \<open>
  A \<^verbatim>\<open>Command(update={...})\<close>, the update of the graph state a tool asks the framework
  for: for each key the tool may write, the value written or \<open>None\<close> when the update
  dict has no such key; the messages it adds.
\<close>

record command =
  upd_user_first_name :: "pystr option"
  upd_user_last_name :: "pystr option"
  upd_has_valid_name :: "bool option"
  upd_messages :: "message list"

definition tool_message :: "pystr \<Rightarrow> pystr \<Rightarrow> message" where
  "tool_message body call_id =
     \<lparr>msg_class = ToolMessage, content = Some (PStr body), msg_id = None,
      tool_calls = [], tool_call_id = call_id\<rparr>"

definition update_user_name ::
  "python \<Rightarrow> database \<Rightarrow> pystr \<Rightarrow> pystr \<Rightarrow> pystr \<Rightarrow> py_error + command" where
  "update_user_name p d new_first_name new_last_name call_id =
     and_then (customer_exists p d new_first_name new_last_name) (\<lambda>found.
       if found then
         Inr \<lparr>upd_user_first_name = Some new_first_name,
              upd_user_last_name = Some new_last_name,
              upd_has_valid_name = Some True,
              upd_messages =
                [tool_message
                   (ascii ''Updated user name to '' @ new_first_name @ ascii '' '' @ new_last_name
                      @ ascii ''.'')
                   call_id]\<rparr>
       else
         Inr \<lparr>upd_user_first_name = None,
              upd_user_last_name = None,
              upd_has_valid_name = None,
              upd_messages =
                [tool_message
                   (str_title p new_first_name @ ascii '' '' @ str_title p new_last_name
                      @ ascii '' is not a valid name in the database. Ask the user for a name that actually exists in the database. Dont call the user ''
                      @ new_first_name)
                   call_id]\<rparr>)"

datatype tool = execute_sql_tool | update_user_name_tool

record ModelRequest =
  tools :: "tool list"
  system_prompt :: "pystr option"
  runtime_context :: RuntimeContext

definition name_directive :: pystr where
  "name_directive =
     ascii ''You must first collect the user'' @ [quote] @ ascii ''s first and last name that exist in the Chinook Customer table. ''
     @ ascii ''Ask for their full name if missing or invalid. When a name is provided, call the update_user_name tool ''
     @ ascii ''with parsed first_name and last_name. Do not answer any other questions and do not call any other tools ''
     @ ascii ''until the name is validated. Be concise and polite.''"

definition require_valid_name :: "ModelRequest \<Rightarrow> (ModelRequest \<Rightarrow> 'r) \<Rightarrow> 'r" where
  "require_valid_name request handler =
     (let request' =
        (if \<not> has_valid_name (runtime_context request)
         then request\<lparr>tools := [update_user_name_tool], system_prompt := Some name_directive\<rparr>
         else request)
      in handler request')"

text \<open>
  \<^verbatim>\<open>SQL_EXECUTION_AGENT_PROMPT_TEMPLATE.format(...)\<close>. The template has no placeholder
  before its 26th line, so the formatted text starts with the template's first lines as
  they are; \<open>prompt_head\<close> is the first of them. \<open>rest\<close> gives what follows it: the other
  lines, with the table names of the connection and the two names filled in.
\<close>

definition prompt_head :: pystr where
  "prompt_head =
     ascii ''\<newline>You are a helpful AI assistant an intelligent data assistant connected to the Chinook database.\<newline>''"

definition dynamic_system_prompt ::
  "(database \<Rightarrow> pystr \<Rightarrow> pystr \<Rightarrow> pystr) \<Rightarrow> ModelRequest \<Rightarrow> pystr" where
  "dynamic_system_prompt rest request =
     (let firstname = user_first_name (runtime_context request);
          lastname = user_last_name (runtime_context request)
      in prompt_head @ rest (db (runtime_context request)) firstname lastname)"

text \<open>The tool list \<^verbatim>\<open>create_agent\<close> is given.\<close>

definition agent_tools :: "tool list" where
  "agent_tools = [execute_sql_tool, update_user_name_tool]"

text \<open>
  The framework's part of a model call, which is not under src/. The decorator
  \<^verbatim>\<open>@dynamic_prompt\<close> makes of a function a hook that writes the function's result into
  \<^verbatim>\<open>request.system_prompt\<close> and calls its handler. \<^verbatim>\<open>create_agent\<close> runs the hooks of
  \<^verbatim>\<open>middleware=[require_valid_name, dynamic_system_prompt]\<close> in the order of the list,
  the first outermost: the handler of \<^verbatim>\<open>require_valid_name\<close> is the prompt hook, and the
  handler of the prompt hook is the model invocation. The request of a model call
  carries the agent's tools, no system prompt (the agent is created with none) and, as
  \<^verbatim>\<open>request.runtime.context\<close>, the context the caller of \<^verbatim>\<open>agent.stream\<close> passed; no
  line of the source writes that context, and a tool's update goes to the graph state.
\<close>

definition dynamic_prompt_hook :: "(ModelRequest \<Rightarrow> pystr) \<Rightarrow> ModelRequest \<Rightarrow> (ModelRequest \<Rightarrow> 'r) \<Rightarrow> 'r" where
  "dynamic_prompt_hook f request handler = handler (request\<lparr>system_prompt := Some (f request)\<rparr>)"

definition model_request :: "RuntimeContext \<Rightarrow> ModelRequest" where
  "model_request ctx = \<lparr>tools = agent_tools, system_prompt = None, runtime_context = ctx\<rparr>"

definition model_call ::
  "(database \<Rightarrow> pystr \<Rightarrow> pystr \<Rightarrow> pystr) \<Rightarrow> RuntimeContext \<Rightarrow> (ModelRequest \<Rightarrow> 'r) \<Rightarrow> 'r" where
  "model_call rest ctx model =
     require_valid_name (model_request ctx)
       (\<lambda>request. dynamic_prompt_hook (dynamic_system_prompt rest) request model)"

definition get_default_context :: "database \<Rightarrow> RuntimeContext" where
  "get_default_context agent_database =
     \<lparr>db = agent_database, user_first_name = [], user_last_name = [], has_valid_name = False\<rparr>"

section \<open>The thread registry\<close>

text \<open>
  \<^verbatim>\<open>thread_registry\<close> is a Python dict, which keeps its keys in insertion order: a list
  of items. Timestamps are natural numbers (a later moment is a larger number).
\<close>

record thread_entry =
  created_at :: nat
  last_activity :: nat
  title :: pystr
  messages :: "message list"

type_synonym registry = "(pystr \<times> thread_entry) list"

text \<open>\<^verbatim>\<open>d[k] = v\<close>: a key already there keeps its place, a new key goes last.\<close>

fun dict_set :: "('k \<times> 'v) list \<Rightarrow> 'k \<Rightarrow> 'v \<Rightarrow> ('k \<times> 'v) list" where
  "dict_set [] k v = [(k, v)]"
| "dict_set (kv # kvs) k v = (if fst kv = k then (k, v) # kvs else kv # dict_set kvs k v)"

definition get_thread_messages_from_registry :: "registry \<Rightarrow> pystr \<Rightarrow> message list" where
  "get_thread_messages_from_registry reg thread_id =
     (case map_of reg thread_id of Some e \<Rightarrow> messages e | None \<Rightarrow> [])"

text \<open>\<open>now\<close> is what \<^verbatim>\<open>datetime.now(timezone.utc)\<close> returns in the call.\<close>

definition update_thread_registry ::
  "registry \<Rightarrow> nat \<Rightarrow> pystr \<Rightarrow> pystr option \<Rightarrow> bool \<Rightarrow> message list option \<Rightarrow> registry" where
  "update_thread_registry reg now thread_id new_title is_new new_messages =
     (case map_of reg thread_id of
        Some e \<Rightarrow>
          if is_new then
            dict_set reg thread_id
              \<lparr>created_at = now, last_activity = now,
               title = (case new_title of Some t \<Rightarrow> if t \<noteq> [] then t else new_conversation
                        | None \<Rightarrow> new_conversation),
               messages = (case new_messages of Some ms \<Rightarrow> ms | None \<Rightarrow> [])\<rparr>
          else
            (let e1 = e\<lparr>last_activity := now\<rparr>;
                 e2 = (case new_title of Some t \<Rightarrow> if t \<noteq> [] then e1\<lparr>title := t\<rparr> else e1
                       | None \<Rightarrow> e1);
                 e3 = (case new_messages of Some ms \<Rightarrow> e2\<lparr>messages := ms\<rparr> | None \<Rightarrow> e2)
             in dict_set reg thread_id e3)
      | None \<Rightarrow>
          dict_set reg thread_id
            \<lparr>created_at = now, last_activity = now,
             title = (case new_title of Some t \<Rightarrow> if t \<noteq> [] then t else new_conversation
                      | None \<Rightarrow> new_conversation),
             messages = (case new_messages of Some ms \<Rightarrow> ms | None \<Rightarrow> [])\<rparr>)"

text \<open>
  The metadata dict of \<^verbatim>\<open>get_thread_metadata\<close>, which every endpoint copies field by
  field into a \<^verbatim>\<open>ThreadInfo\<close>; a timestamp stands for its ISO text.
\<close>

record ThreadInfo =
  info_thread_id :: pystr
  info_created_at :: "nat option"
  info_last_activity :: "nat option"
  info_title :: pystr
  info_message_count :: nat

definition get_thread_metadata :: "registry \<Rightarrow> pystr \<Rightarrow> ThreadInfo" where
  "get_thread_metadata reg thread_id =
     (let msgs = get_thread_messages_from_registry reg thread_id in
      case map_of reg thread_id of
        Some e \<Rightarrow>
          \<lparr>info_thread_id = thread_id, info_created_at = Some (created_at e),
           info_last_activity = Some (last_activity e), info_title = title e,
           info_message_count = length msgs\<rparr>
      | None \<Rightarrow>
          \<lparr>info_thread_id = thread_id, info_created_at = None,
           info_last_activity = None, info_title = new_conversation,
           info_message_count = length msgs\<rparr>)"

datatype http_error = HTTPException nat pystr

record ThreadListResponse =
  threads :: "ThreadInfo list"
  total :: nat
  limit :: int
  offset :: int

text \<open>
  The sort key of \<^verbatim>\<open>list_threads\<close>. The ids sorted are the registry's keys, so the
  lookup finds an entry; every entry has a \<^verbatim>\<open>last_activity\<close>.
\<close>

definition activity_key :: "registry \<Rightarrow> pystr \<Rightarrow> nat" where
  "activity_key reg tid = (case map_of reg tid of Some e \<Rightarrow> last_activity e | None \<Rightarrow> 0)"

text \<open>
  \<^verbatim>\<open>sorted(xs, key=k, reverse=True)\<close>: descending, and stable (items with equal keys
  keep the order they had in \<open>xs\<close>).
\<close>

definition sorted_reverse :: "('a \<Rightarrow> nat) \<Rightarrow> 'a list \<Rightarrow> 'a list" where
  "sorted_reverse k xs = rev (sort_key k (rev xs))"

definition sorted_threads :: "registry \<Rightarrow> pystr list" where
  "sorted_threads reg = sorted_reverse (activity_key reg) (map fst reg)"

text \<open>
  GET /threads. The bounds of \<^verbatim>\<open>Query(20, ge=1, le=100)\<close> and \<^verbatim>\<open>Query(0, ge=0)\<close> are
  checked before the body runs; outside them the request is refused with status 422.
\<close>

definition list_threads :: "registry \<Rightarrow> int \<Rightarrow> int \<Rightarrow> http_error + ThreadListResponse" where
  "list_threads reg lim off =
     (if lim < 1 \<or> 100 < lim \<or> off < 0 then Inl (HTTPException 422 (ascii ''Unprocessable Entity''))
      else
        (let all_threads = map fst reg;
             paginated_threads = take (nat lim) (drop (nat off) (sorted_threads reg));
             thread_infos = map (get_thread_metadata reg) paginated_threads
         in Inr \<lparr>threads = thread_infos, total = length all_threads, limit = lim, offset = off\<rparr>))"

definition delete_thread :: "registry \<Rightarrow> pystr \<Rightarrow> registry" where
  "delete_thread reg thread_id = filter (\<lambda>kv. fst kv \<noteq> thread_id) reg"

section \<open>The chat endpoint\<close>

record ChatRequest =
  req_message :: pystr
  req_thread_id :: "pystr option"

record ToolCallInfo =
  tool_name :: pystr
  tool_args :: "(pyval \<times> pyval) list"
  call_id :: pystr
  tool_output :: "pystr option"

record AgentDebugInfo =
  step_count :: nat
  debug_tool_calls :: "ToolCallInfo list"
  model_name :: "pystr option"

record ChatResponse =
  response :: pystr
  resp_thread_id :: pystr
  message_id :: "pystr option"
  timestamp :: nat
  debug_info :: AgentDebugInfo

text \<open>
  What awaiting the worker gives \<^verbatim>\<open>chat\<close>: the 30 seconds pass first, the loop raises,
  or \<^verbatim>\<open>agent.stream\<close> ends after yielding its steps; a step is here the list
  \<^verbatim>\<open>step.get("messages", [])\<close>.
\<close>

datatype agent_run = TimedOut | Raised py_error | Finished "message list list"

text \<open>
  What \<^verbatim>\<open>chat\<close> takes from outside: Python's built-ins, the module's database handle,
  the invocation loop (given the context, the thread id and the message), the value of
  \<^verbatim>\<open>uuid.uuid4()\<close>, the clock at the three places it is read, and the model's name.
\<close>

record world =
  builtins :: python
  agent_db :: database
  agent_stream :: "RuntimeContext \<Rightarrow> pystr \<Rightarrow> pystr \<Rightarrow> agent_run"
  uuid4 :: pystr
  now_before :: nat
  now_after :: nat
  now_response :: nat
  gemini_model :: pystr

text \<open>One call of \<^verbatim>\<open>agent.stream\<close>, by the arguments \<^verbatim>\<open>chat\<close> passes.\<close>

record invocation =
  inv_context :: RuntimeContext
  inv_thread_id :: pystr
  inv_message :: pystr

text \<open>The inner function \<^verbatim>\<open>process_agent\<close>: the last step with messages wins.\<close>

fun process_agent :: "message option \<times> message list \<Rightarrow> message list list \<Rightarrow> message option \<times> message list" where
  "process_agent acc [] = acc"
| "process_agent acc (step_messages # steps) =
     process_agent (if step_messages \<noteq> [] then (Some (last step_messages), step_messages) else acc) steps"

text \<open>
  The backward scan for the start of the turn: \<open>pending\<close> are the messages still to
  visit, latest first; the result says whether the user's message was found, and gives
  \<^verbatim>\<open>turn_messages\<close> in the order they were appended.
\<close>

fun scan_turn :: "pystr \<Rightarrow> message list \<Rightarrow> message list \<Rightarrow> bool \<times> message list" where
  "scan_turn text_sent [] turn_messages = (False, turn_messages)"
| "scan_turn text_sent (msg # pending) turn_messages =
     (if msg_class msg = HumanMessage \<and> content msg = Some (PStr text_sent)
      then (True, turn_messages @ [msg])
      else scan_turn text_sent pending (turn_messages @ [msg]))"

definition turn_of :: "pystr \<Rightarrow> message list \<Rightarrow> message list" where
  "turn_of text_sent all_messages =
     (case scan_turn text_sent (rev all_messages) [] of
        (found_start, turn_messages) \<Rightarrow> if found_start then rev turn_messages else all_messages)"

text \<open>The loop over \<^verbatim>\<open>msg.tool_calls\<close>, filling \<^verbatim>\<open>tool_calls_map\<close>.\<close>

fun record_calls :: "(pystr \<times> ToolCallInfo) list \<Rightarrow> tool_call list \<Rightarrow> (pystr \<times> ToolCallInfo) list" where
  "record_calls m [] = m"
| "record_calls m (tc # tcs) =
     record_calls
       (case tc_id tc of
          Some i \<Rightarrow>
            if i \<noteq> [] then
              dict_set m i
                \<lparr>tool_name = (case tc_name tc of Some n \<Rightarrow> n | None \<Rightarrow> ascii ''unknown''),
                 tool_args = (case tc_args tc of Some a \<Rightarrow> a | None \<Rightarrow> []),
                 call_id = i, tool_output = None\<rparr>
            else m
        | None \<Rightarrow> m)
       tcs"

text \<open>
  \<^verbatim>\<open>msg.content\<close> read from a message of the loop; those are framework messages, which
  all carry the attribute.
\<close>

definition content_of :: "message \<Rightarrow> pyval" where
  "content_of msg = (case content msg of Some v \<Rightarrow> v | None \<Rightarrow> PNone)"

text \<open>The loop over \<^verbatim>\<open>turn_messages\<close>; \<^verbatim>\<open>str(msg.content)\<close> may raise.\<close>

fun scan_tools :: "python \<Rightarrow> (pystr \<times> ToolCallInfo) list \<Rightarrow> message list \<Rightarrow> py_error + (pystr \<times> ToolCallInfo) list" where
  "scan_tools p m [] = Inr m"
| "scan_tools p m (msg # msgs) =
     (let m1 = (if msg_class msg = AIMessage then record_calls m (tool_calls msg) else m) in
      if msg_class msg = ToolMessage then
        (case map_of m1 (tool_call_id msg) of
           Some info \<Rightarrow>
             and_then (py_str p (content_of msg)) (\<lambda>s.
               scan_tools p (dict_set m1 (tool_call_id msg) (info\<lparr>tool_output := Some s\<rparr>)) msgs)
         | None \<Rightarrow> scan_tools p m1 msgs)
      else scan_tools p m1 msgs)"

text \<open>The response text and message id: the last AIMessage, else the last message.\<close>

definition final_response :: "python \<Rightarrow> message option \<Rightarrow> message list \<Rightarrow> py_error + pystr \<times> pystr option" where
  "final_response p last_message all_messages =
     (case last_message of
        None \<Rightarrow> Inr (no_response, None)
      | Some lm \<Rightarrow>
          (case find (\<lambda>msg. msg_class msg = AIMessage) (rev all_messages) of
             Some msg \<Rightarrow> and_then (extract_message_content p (Some msg)) (\<lambda>c. Inr (c, msg_id msg))
           | None \<Rightarrow> and_then (extract_message_content p (Some lm)) (\<lambda>c. Inr (c, msg_id lm))))"

definition timeout_detail :: pystr where
  "timeout_detail = ascii ''Request timeout. The agent took too long to respond. Please try again.''"

text \<open>The \<^verbatim>\<open>except\<close> clauses of \<^verbatim>\<open>chat\<close>, for an exception that is not an HTTPException.\<close>

definition http_of_error :: "python \<Rightarrow> py_error \<Rightarrow> http_error" where
  "http_of_error p e =
     (let error_details = error_text e in
      if error_class e = ValueError then HTTPException 400 (ascii ''Invalid request: '' @ error_details)
      else if sublist (ascii ''validation error'') (str_lower p error_details) then
        HTTPException 500
          (ascii ''The agent generated an unexpected response format. Please try again or use a different thread_id.'')
      else if sublist (ascii ''string_type'') error_details
              \<or> sublist (ascii ''Input should be a valid string'') error_details then
        HTTPException 500
          (ascii ''The agent response could not be processed. Please try again with a new thread_id or rephrase your question.'')
      else HTTPException 500 (ascii ''Agent error: '' @ error_details))"

text \<open>\<^verbatim>\<open>request.thread_id or str(uuid.uuid4())\<close>.\<close>

definition resolve_thread_id :: "world \<Rightarrow> ChatRequest \<Rightarrow> pystr" where
  "resolve_thread_id w request =
     (case req_thread_id request of
        Some t \<Rightarrow> if t \<noteq> [] then t else uuid4 w
      | None \<Rightarrow> uuid4 w)"

text \<open>The lines of \<^verbatim>\<open>chat\<close> before the \<^verbatim>\<open>try\<close>: the registry is written first.\<close>

definition register_request :: "world \<Rightarrow> registry \<Rightarrow> ChatRequest \<Rightarrow> registry" where
  "register_request w reg request =
     (let thread_id = resolve_thread_id w request;
          is_new_thread = (map_of reg thread_id = None)
      in if is_new_thread
         then update_thread_registry reg (now_before w) thread_id
                (Some (generate_thread_title (builtins w) (req_message request))) True None
         else update_thread_registry reg (now_before w) thread_id None False None)"

text \<open>
  The lines of \<^verbatim>\<open>chat\<close> from the await on: \<open>reg1\<close> is the registry as the lines before
  left it, \<open>outcome\<close> what awaiting the worker gave.
\<close>

definition complete_chat ::
  "world \<Rightarrow> registry \<Rightarrow> pystr \<Rightarrow> pystr \<Rightarrow> agent_run \<Rightarrow> registry \<times> (http_error + ChatResponse)" where
  "complete_chat w reg1 thread_id text_sent outcome =
     (case outcome of
        TimedOut \<Rightarrow> (reg1, Inl (HTTPException 504 timeout_detail))
      | Raised e \<Rightarrow> (reg1, Inl (http_of_error (builtins w) e))
      | Finished steps \<Rightarrow>
          (case process_agent (None, []) steps of
             (last_message, all_messages) \<Rightarrow>
               (let turn_messages = turn_of text_sent all_messages in
                case and_then (scan_tools (builtins w) [] turn_messages) (\<lambda>tool_calls_map.
                     and_then (final_response (builtins w) last_message all_messages) (\<lambda>answer.
                       Inr \<lparr>response = fst answer, resp_thread_id = thread_id,
                            message_id = snd answer, timestamp = now_response w,
                            debug_info =
                              \<lparr>step_count = length turn_messages,
                               debug_tool_calls = map snd tool_calls_map,
                               model_name = Some (gemini_model w)\<rparr>\<rparr>)) of
                  Inl e \<Rightarrow> (reg1, Inl (http_of_error (builtins w) e))
                | Inr resp \<Rightarrow>
                    (update_thread_registry reg1 (now_after w) thread_id None False (Some all_messages),
                     Inr resp))))"

text \<open>
  POST /chat, with the call of the invocation loop it makes: the registry after the
  request, the response or the HTTP error, and the calls of \<^verbatim>\<open>agent.stream\<close> made.
\<close>

definition chat_run ::
  "world \<Rightarrow> registry \<Rightarrow> ChatRequest \<Rightarrow> (registry \<times> (http_error + ChatResponse)) \<times> invocation list" where
  "chat_run w reg request =
     (let thread_id = resolve_thread_id w request;
          ctx = get_default_context (agent_db w);
          reg1 = register_request w reg request;
          call = \<lparr>inv_context = ctx, inv_thread_id = thread_id, inv_message = req_message request\<rparr>;
          outcome = agent_stream w (inv_context call) (inv_thread_id call) (inv_message call)
      in (complete_chat w reg1 thread_id (req_message request) outcome, [call]))"

definition chat :: "world \<Rightarrow> registry \<Rightarrow> ChatRequest \<Rightarrow> registry \<times> (http_error + ChatResponse)" where
  "chat w reg request = fst (chat_run w reg request)"

text \<open>
  The requests of one client handled one after the other: each runs on the registry the
  one before left; the result lists the calls of the invocation loop, in order.
\<close>

fun chat_calls :: "world \<Rightarrow> registry \<Rightarrow> ChatRequest list \<Rightarrow> invocation list" where
  "chat_calls w reg [] = []"
| "chat_calls w reg (request # requests) =
     snd (chat_run w reg request) @ chat_calls w (fst (chat w reg request)) requests"

section \<open>The claims' reference notions and sample inputs\<close>

text \<open>
  The title as the specification words it: the trimmed text, cut to 47 characters and an
  ellipsis when longer than 50, its first character upper-cased; the placeholder when
  nothing is left.
\<close>

definition spec_title :: "python \<Rightarrow> pystr \<Rightarrow> pystr" where
  "spec_title p first_message =
     (let trimmed = strip p first_message;
          cut = (if length trimmed \<le> 50 then trimmed else take 47 trimmed @ ascii ''...'');
          capitalised = str_upper p (take 1 cut) @ drop 1 cut
      in if trimmed = [] \<or> capitalised = [] then ascii ''New Conversation'' else capitalised)"

text \<open>
  The values \<^verbatim>\<open>extract_message_content\<close> passes to \<^verbatim>\<open>str\<close>: the \<^verbatim>\<open>text\<close> entry of a
  dict item that has one, a dict item that has none, an item that is neither a dict nor
  a string, and a content that is neither None, a string nor a list.
\<close>

fun item_operands :: "pyval \<Rightarrow> pyval list" where
  "item_operands (PDict item) =
     (if dict_contains item (PStr (ascii ''text''))
      then [dict_get item (PStr (ascii ''text''))]
      else [PDict item])"
| "item_operands (PStr s) = []"
| "item_operands item = [item]"

definition str_operands :: "message option \<Rightarrow> pyval list" where
  "str_operands m =
     (case m of
        None \<Rightarrow> []
      | Some msg \<Rightarrow>
          (case content msg of
             None \<Rightarrow> []
           | Some PNone \<Rightarrow> []
           | Some (PStr s) \<Rightarrow> []
           | Some (PList items) \<Rightarrow> concat (map item_operands items)
           | Some v \<Rightarrow> [v]))"

text \<open>
  The Customer rows a name pair matches after title-casing, as the specification's Name
  Validator counts them; \<open>rows\<close> are the FirstName and LastName columns of the table.
\<close>

definition matching_rows :: "python \<Rightarrow> (pystr \<times> pystr) list \<Rightarrow> pystr \<Rightarrow> pystr \<Rightarrow> (pystr \<times> pystr) list" where
  "matching_rows p rows first_name last_name =
     filter (\<lambda>r. r = (str_title p first_name, str_title p last_name)) rows"

text \<open>
  A fragment of Python's built-ins for the examples below. It is Python's own on what
  the examples pass to it: ASCII letters, the sharp s (code point 223, whose upper case
  is the two letters SS), and for \<^verbatim>\<open>str\<close> a string, None and an object whose
  \<^verbatim>\<open>__str__\<close> raises, for which \<open>PObj\<close> stands here (on the other values, which no
  example uses, \<open>py_str\<close> is fixed to one text). \<open>title_from\<close> is \<^verbatim>\<open>str.title\<close> on ASCII text: a letter after a
  letter is lowered, a letter after anything else is raised.
\<close>

definition ascii_upper :: "nat \<Rightarrow> pystr" where
  "ascii_upper c = (if c = 223 then [83, 83] else if 97 \<le> c \<and> c \<le> 122 then [c - 32] else [c])"

definition ascii_lower :: "nat \<Rightarrow> nat" where
  "ascii_lower c = (if 65 \<le> c \<and> c \<le> 90 then c + 32 else c)"

fun title_from :: "bool \<Rightarrow> pystr \<Rightarrow> pystr" where
  "title_from prev [] = []"
| "title_from prev (c # cs) =
     (if 97 \<le> c \<and> c \<le> 122 then (if prev then c else c - 32) # title_from True cs
      else if 65 \<le> c \<and> c \<le> 90 then (if prev then c + 32 else c) # title_from True cs
      else c # title_from False cs)"

definition sample_python :: python where
  "sample_python =
     \<lparr>is_space = (\<lambda>c. (9 \<le> c \<and> c \<le> 13) \<or> (28 \<le> c \<and> c \<le> 32) \<or> c = 133 \<or> c = 160),
      str_upper = (\<lambda>s. concat (map ascii_upper s)),
      str_lower = map ascii_lower,
      str_title = title_from False,
      py_str = (\<lambda>v. case v of
                  PStr s \<Rightarrow> Inr s
                | PNone \<Rightarrow> Inr (ascii ''None'')
                | PObj label \<Rightarrow> Inl (Raise RuntimeError label)
                | other \<Rightarrow> Inr (ascii ''<value>'')),
      literal_eval_other = (\<lambda>s. Inl (Raise SyntaxError (ascii ''invalid syntax'')))\<rparr>"

text \<open>
  An engine for the examples: it reads a statement text as the EXISTS statement of
  \<^verbatim>\<open>customer_exists\<close> when the text is the three pieces around two literals with no
  quote inside, and answers it over the Customer rows it is given (SQL compares the
  columns with the literals); it rejects every other text with a syntax error, as a
  literal ended early by a quote makes the engine do.
\<close>

definition parse_exists :: "pystr \<Rightarrow> (pystr \<times> pystr) option" where
  "parse_exists q =
     (if prefix query_head q then
        (let r1 = drop (length query_head) q;
             f = takeWhile (\<lambda>c. c \<noteq> quote) r1;
             r2 = drop (length f) r1
         in if prefix query_mid r2 then
              (let r3 = drop (length query_mid) r2;
                   l = takeWhile (\<lambda>c. c \<noteq> quote) r3;
                   r4 = drop (length l) r3
               in if r4 = query_tail then Some (f, l) else None)
            else None)
      else None)"

definition customer_table :: "(pystr \<times> pystr) list \<Rightarrow> database" where
  "customer_table rows =
     \<lparr>db_run = (\<lambda>query.
        case parse_exists query of
          Some fl \<Rightarrow> Inr (exists_answer (fl \<in> set rows))
        | None \<Rightarrow> Inl (Raise OperationalError (ascii ''near: syntax error'')))\<rparr>"

text \<open>A Customer table with two rows for Frank Harris and one for Ann Lee.\<close>

definition sample_rows :: "(pystr \<times> pystr) list" where
  "sample_rows =
     [(ascii ''Frank'', ascii ''Harris''), (ascii ''Ann'', ascii ''Lee''),
      (ascii ''Frank'', ascii ''Harris'')]"

definition sample_db :: database where
  "sample_db = customer_table sample_rows"

text \<open>A connection that cannot be used: the database file is gone.\<close>

definition broken_db :: database where
  "broken_db = \<lparr>db_run = (\<lambda>query. Inl (Raise OperationalError (ascii ''unable to open database file'')))\<rparr>"

text \<open>The name O'Brien, with its quote.\<close>

definition obrien :: pystr where
  "obrien = ascii ''o'' @ [quote] @ ascii ''brien''"


text \<open>A message whose content is a list with one object whose \<^verbatim>\<open>__str__\<close> raises.\<close>

definition odd_message :: message where
  "odd_message =
     \<lparr>msg_class = AIMessage, content = Some (PList [PStr (ascii ''hi''), PObj (ascii ''boom'')]),
      msg_id = None, tool_calls = [], tool_call_id = []\<rparr>"

text \<open>A world whose invocation loop never answers within the 30 seconds.\<close>

definition slow_world :: world where
  "slow_world =
     \<lparr>builtins = sample_python, agent_db = sample_db,
      agent_stream = (\<lambda>c tid m. TimedOut), uuid4 = ascii ''uuid-1'',
      now_before = 10, now_after = 11, now_response = 12,
      gemini_model = ascii ''gemini-2.5-flash''\<rparr>"

definition hello_request :: ChatRequest where
  "hello_request = \<lparr>req_message = ascii ''hello'', req_thread_id = Some (ascii ''t1'')\<rparr>"

definition old_entry :: thread_entry where
  "old_entry = \<lparr>created_at = 1, last_activity = 2, title = ascii ''Earlier'', messages = []\<rparr>"

definition three_threads :: registry where
  "three_threads =
     [(ascii ''a'', \<lparr>created_at = 1, last_activity = 5, title = ascii ''A'', messages = []\<rparr>),
      (ascii ''b'', \<lparr>created_at = 2, last_activity = 7, title = ascii ''B'', messages = []\<rparr>),
      (ascii ''c'', \<lparr>created_at = 3, last_activity = 5, title = ascii ''C'', messages = []\<rparr>)]"

text \<open>
  A world whose invocation loop, on the message "im frank harris", has the model call
  \<^verbatim>\<open>update_user_name\<close> and yields the messages of the turn (the user's message, the
  tool's answer, the assistant's answer), and on any other message yields the user's
  message and an answer.
\<close>

definition human :: "pystr \<Rightarrow> message" where
  "human s = \<lparr>msg_class = HumanMessage, content = Some (PStr s), msg_id = None,
              tool_calls = [], tool_call_id = []\<rparr>"

definition assistant :: "pystr \<Rightarrow> message" where
  "assistant s = \<lparr>msg_class = AIMessage, content = Some (PStr s), msg_id = None,
                  tool_calls = [], tool_call_id = []\<rparr>"

definition name_world :: world where
  "name_world =
     \<lparr>builtins = sample_python, agent_db = sample_db,
      agent_stream = (\<lambda>c tid m.
        if m = ascii ''im frank harris'' then
          (case update_user_name sample_python sample_db (ascii ''frank'') (ascii ''harris'') (ascii ''call-1'') of
             Inr u \<Rightarrow> Finished [[human m] @ upd_messages u @ [assistant (ascii ''Hello Frank!'')]]
           | Inl e \<Rightarrow> Raised e)
        else Finished [[human m, assistant (ascii ''Please tell me your name.'')]]),
      uuid4 = ascii ''uuid-1'',
      now_before = 10, now_after = 11, now_response = 12,
      gemini_model = ascii ''gemini-2.5-flash''\<rparr>"

definition frank_request :: ChatRequest where
  "frank_request = \<lparr>req_message = ascii ''im frank harris'', req_thread_id = Some (ascii ''t1'')\<rparr>"

section \<open>Facts about the sample inputs\<close>


lemma sample_title_frank: "str_title sample_python (ascii ''frank'') = ascii ''Frank''"
  by code_simp

lemma sample_title_harris: "str_title sample_python (ascii ''harris'') = ascii ''Harris''"
  by code_simp

lemma sample_title_john: "str_title sample_python (ascii ''john'') = ascii ''John''"
  by code_simp

lemma sample_title_doe: "str_title sample_python (ascii ''doe'') = ascii ''Doe''"
  by code_simp

lemma sample_title_obrien: "str_title sample_python obrien = ascii ''O'' @ quote # ascii ''Brien''"
  by code_simp

section \<open>Content extraction\<close>

lemma item_text_returns:
  "(\<exists>s. item_text p item = Inr s) \<longleftrightarrow> list_all (\<lambda>v. \<exists>s. py_str p v = Inr s) (item_operands item)"
  by (cases item)
     (auto simp: and_then_def dict_contains_def dict_item_def dict_get_def split: option.splits)

lemma text_parts_returns:
  "(\<exists>parts. text_parts p items = Inr parts)
     \<longleftrightarrow> list_all (\<lambda>v. \<exists>s. py_str p v = Inr s) (concat (map item_operands items))"
proof (induction items)
  case Nil
  show ?case by simp
next
  case (Cons item items)
  have "(\<exists>parts. text_parts p (item # items) = Inr parts)
          \<longleftrightarrow> (\<exists>s. item_text p item = Inr s) \<and> (\<exists>parts. text_parts p items = Inr parts)"
    by (auto simp: and_then_def split: sum.splits)
  then show ?case
    by (simp add: Cons.IH item_text_returns)
qed

lemma extract_returns:
  "(\<exists>s. extract_message_content p m = Inr s)
     \<longleftrightarrow> list_all (\<lambda>v. \<exists>s. py_str p v = Inr s) (str_operands m)"
proof (cases m)
  case None
  then show ?thesis by (simp add: extract_message_content_def str_operands_def)
next
  case (Some msg)
  show ?thesis
  proof (cases "content msg")
    case None
    with Some show ?thesis by (simp add: extract_message_content_def str_operands_def)
  next
    case inner: (Some v)
    have list: "(\<exists>s. and_then (text_parts p items)
                       (\<lambda>parts. Inr (if parts \<noteq> [] then join (ascii '' '') parts else no_response)) = Inr s)
                  \<longleftrightarrow> (\<exists>parts. text_parts p items = Inr parts)" for items
      by (auto simp: and_then_def split: sum.splits)
    from Some inner show ?thesis
      by (cases v) (simp_all add: extract_message_content_def str_operands_def list text_parts_returns)
  qed
qed

text \<open>
  Claim C10, as stated: \<^verbatim>\<open>extract_message_content\<close> never raises, whatever the content.
  It fails for a list content that holds an object whose \<^verbatim>\<open>__str__\<close> raises: the
  function has no \<^verbatim>\<open>try\<close>, and the exception of \<^verbatim>\<open>str(item)\<close> reaches the caller.
\<close>

theorem extract_message_content_raises_counterexample:
  "extract_message_content sample_python (Some odd_message) = Inl (Raise RuntimeError (ascii ''boom''))
   \<and> \<not> (\<exists>s. extract_message_content sample_python (Some odd_message) = Inr s)"
proof -
  have "extract_message_content sample_python (Some odd_message) = Inl (Raise RuntimeError (ascii ''boom''))"
    by (simp add: extract_message_content_def odd_message_def and_then_def sample_python_def)
  then show ?thesis by simp
qed

text \<open>
  Claim C10, amended. \<^verbatim>\<open>extract_message_content\<close> returns a string exactly when every
  call of \<^verbatim>\<open>str\<close> it makes returns (the calls are on the \<^verbatim>\<open>text\<close> entry of a dict item,
  on a dict item without one, on an item that is neither dict nor string, and on a
  content that is neither None, string nor list); otherwise the exception of \<^verbatim>\<open>str\<close>
  reaches the caller. It makes no such call, and returns "No response generated", for a
  None message, a message without a content attribute and a message whose content is
  None; no branch reaches the KeyError of \<^verbatim>\<open>item["text"]\<close>.
\<close>

theorem extract_message_content_returns:
  "(\<exists>s. extract_message_content p m = Inr s)
     = list_all (\<lambda>v. \<exists>s. py_str p v = Inr s) (str_operands m)
   \<and> extract_message_content p None = Inr (ascii ''No response generated'')
   \<and> extract_message_content p (Some (msg\<lparr>content := None\<rparr>)) = Inr (ascii ''No response generated'')
   \<and> extract_message_content p (Some (msg\<lparr>content := Some PNone\<rparr>)) = Inr (ascii ''No response generated'')
   \<and> extract_message_content p (Some (msg\<lparr>content := Some (PStr s)\<rparr>)) = Inr s"
  using extract_returns[of p m]
  by (simp add: extract_message_content_def no_response_def)

section \<open>The query executor\<close>

text \<open>
  Claim C6. For every statement text \<^verbatim>\<open>execute_sql\<close> returns and does not raise: the
  rows the engine gives, or, when the engine raises, the text "Error: " followed by the
  exception's description.
\<close>

theorem execute_sql_never_raises:
  "execute_sql c query =
     Inr (case db_run (db c) query of Inr rows \<Rightarrow> rows | Inl e \<Rightarrow> ascii ''Error: '' @ error_text e)"
  by (simp add: execute_sql_def try_except_def split: sum.splits)

section \<open>Thread titles\<close>


lemma generate_is_spec: "generate_thread_title p m = spec_title p m"
proof (cases "strip p m")
  case Nil
  then show ?thesis
    by (simp add: generate_thread_title_def spec_title_def new_conversation_def)
next
  case (Cons c cs)
  show ?thesis
  proof (cases "length (strip p m) \<le> 50")
    case True
    with Cons show ?thesis
      by (cases cs) (simp_all add: generate_thread_title_def spec_title_def new_conversation_def Let_def)
  next
    case False
    with Cons show ?thesis
      by (simp add: generate_thread_title_def spec_title_def new_conversation_def Let_def ascii_def)
  qed
qed

lemma spec_title_unfold:
  "spec_title p m =
     (if strip p m = []
         \<or> str_upper p (take 1 (if length (strip p m) \<le> 50 then strip p m
                                   else take 47 (strip p m) @ ascii ''...''))
             @ drop 1 (if length (strip p m) \<le> 50 then strip p m
                       else take 47 (strip p m) @ ascii ''...'') = []
      then ascii ''New Conversation''
      else str_upper p (take 1 (if length (strip p m) \<le> 50 then strip p m
                                else take 47 (strip p m) @ ascii ''...''))
           @ drop 1 (if length (strip p m) \<le> 50 then strip p m
                     else take 47 (strip p m) @ ascii ''...''))"
  unfolding spec_title_def Let_def by (rule refl)

lemma placeholder_length: "length (ascii ''New Conversation'') = 16"
  by (simp add: ascii_def)



lemma spec_title_not_empty: "spec_title p m \<noteq> []"
proof -
  define trimmed where "trimmed = strip p m"
  define cut where "cut = (if length trimmed \<le> 50 then trimmed else take 47 trimmed @ ascii ''...'')"
  define cap where "cap = str_upper p (take 1 cut) @ drop 1 cut"
  have eq: "spec_title p m = (if trimmed = [] \<or> cap = [] then ascii ''New Conversation'' else cap)"
    unfolding spec_title_unfold trimmed_def cut_def cap_def by (rule refl)
  show ?thesis
  proof (cases "trimmed = [] \<or> cap = []")
    case True
    then have "spec_title p m = ascii ''New Conversation''"
      unfolding eq by (rule if_P)
    moreover have "length (ascii ''New Conversation'') = 16"
      by (rule placeholder_length)
    ultimately show ?thesis by auto
  next
    case False
    then have "spec_title p m = cap"
      unfolding eq by (rule if_not_P)
    with False show ?thesis by simp
  qed
qed

lemma map_of_dict_set_same: "map_of (dict_set reg k v) k = Some v"
  by (induction reg) auto

lemma map_of_dict_set_other: "k' \<noteq> k \<Longrightarrow> map_of (dict_set reg k v) k' = map_of reg k'"
  by (induction reg) auto




section \<open>The name validator\<close>

lemma customer_exists_answer:
  "db_run d (exists_query (str_title p first_name) (str_title p last_name)) = Inr (exists_answer b)
     \<Longrightarrow> customer_exists p d first_name last_name = Inr b"
  by (simp add: customer_exists_def and_then_def exists_answer_def literal_eval_def
        equals_zero_def ascii_def)

lemma customer_exists_raise:
  "db_run d (exists_query (str_title p first_name) (str_title p last_name)) = Inl e
     \<Longrightarrow> customer_exists p d first_name last_name = Inl e"
  by (simp add: customer_exists_def and_then_def)

lemma matching_rows_member:
  "matching_rows p rows f l \<noteq> [] \<longleftrightarrow> (str_title p f, str_title p l) \<in> set rows"
  by (auto simp: matching_rows_def filter_empty_conv)

lemma takeWhile_until_quote:
  "quote \<notin> set f \<Longrightarrow> takeWhile (\<lambda>c. c \<noteq> quote) (f @ quote # r) = f"
  by (induction f) auto

lemma query_mid_Cons: "\<exists>r. query_mid = quote # r"
  by (simp add: query_mid_def)

lemma query_tail_Cons: "\<exists>r. query_tail = quote # r"
  by (simp add: query_tail_def)

lemma parse_exists_query:
  assumes "quote \<notin> set f" and "quote \<notin> set l"
  shows "parse_exists (exists_query f l) = Some (f, l)"
proof -
  obtain rm where rm: "query_mid = quote # rm"
    using query_mid_Cons by blast
  obtain rt where rt: "query_tail = quote # rt"
    using query_tail_Cons by blast
  have f: "takeWhile (\<lambda>c. c \<noteq> quote) (f @ query_mid @ l @ query_tail) = f"
    using takeWhile_until_quote[OF assms(1)] by (simp add: rm)
  have l: "takeWhile (\<lambda>c. c \<noteq> quote) (l @ query_tail) = l"
    using takeWhile_until_quote[OF assms(2)] by (simp add: rt)
  show ?thesis
    unfolding parse_exists_def exists_query_def Let_def
    by (simp add: f l)
qed

text \<open>
  The sample engine answers the statement of every name pair whose title-cased names
  hold no quote, as SQL does over its rows.
\<close>

lemma customer_table_answers:
  assumes "quote \<notin> set (str_title p f)" and "quote \<notin> set (str_title p l)"
  shows "db_run (customer_table rows) (exists_query (str_title p f) (str_title p l))
           = Inr (exists_answer (matching_rows p rows f l \<noteq> []))"
  by (simp add: customer_table_def parse_exists_query[OF assms] matching_rows_member)

lemma no_quote_samples:
  "quote \<notin> set (ascii ''Frank'')" "quote \<notin> set (ascii ''Harris'')"
  "quote \<notin> set (ascii ''John'')" "quote \<notin> set (ascii ''Doe'')"
  by (simp_all add: quote_def ascii_def)

lemma frank_harris_answer:
  "db_run sample_db (exists_query (str_title sample_python (ascii ''frank''))
      (str_title sample_python (ascii ''harris'')))
     = Inr (exists_answer (matching_rows sample_python sample_rows (ascii ''frank'') (ascii ''harris'') \<noteq> []))"
  unfolding sample_db_def
  by (rule customer_table_answers) (simp_all only: sample_title_frank sample_title_harris no_quote_samples not_False_eq_True)

lemma john_doe_answer:
  "db_run sample_db (exists_query (str_title sample_python (ascii ''john''))
      (str_title sample_python (ascii ''doe'')))
     = Inr (exists_answer (matching_rows sample_python sample_rows (ascii ''john'') (ascii ''doe'') \<noteq> []))"
  unfolding sample_db_def
  by (rule customer_table_answers) (simp_all only: sample_title_john sample_title_doe no_quote_samples not_False_eq_True)

lemma ascii_inj: "ascii s = ascii t \<longleftrightarrow> s = t"
  unfolding ascii_def by (simp add: inj_map_eq_map inj_of_char)

lemma frank_harris_rows:
  "matching_rows sample_python sample_rows (ascii ''frank'') (ascii ''harris'')
     = [(ascii ''Frank'', ascii ''Harris''), (ascii ''Frank'', ascii ''Harris'')]"
  by (simp add: matching_rows_def sample_rows_def sample_title_frank sample_title_harris ascii_inj)

lemma john_doe_rows:
  "matching_rows sample_python sample_rows (ascii ''john'') (ascii ''doe'') = []"
  by (simp add: matching_rows_def sample_rows_def sample_title_john sample_title_doe ascii_inj)

lemma frank_harris_found:
  "customer_exists sample_python sample_db (ascii ''frank'') (ascii ''harris'') = Inr True"
  using customer_exists_answer[OF frank_harris_answer] by (simp add: frank_harris_rows)

lemma john_doe_not_found:
  "customer_exists sample_python sample_db (ascii ''john'') (ascii ''doe'') = Inr False"
  using customer_exists_answer[OF john_doe_answer] by (simp add: john_doe_rows)




lemma obrien_query_unparsed:
  "parse_exists (exists_query (str_title sample_python obrien) l) = None"
proof -
  obtain rm where rm: "query_mid = quote # 32 # rm"
    by (simp add: query_mid_def ascii_def)
  have tw: "takeWhile (\<lambda>c. c \<noteq> quote) (ascii ''O'' @ quote # r) = ascii ''O''" for r
    by (simp add: ascii_def quote_def)
  have len: "length (ascii ''O'') = 1"
    by (simp add: ascii_def)
  have "\<not> prefix query_mid (quote # ascii ''Brien'' @ query_mid @ l @ query_tail)"
    by (simp add: rm ascii_def)
  then show ?thesis
    unfolding parse_exists_def exists_query_def Let_def sample_title_obrien
    by (simp add: tw len)
qed

lemma obrien_run:
  "db_run sample_db (exists_query (str_title sample_python obrien) l)
     = Inl (Raise OperationalError (ascii ''near: syntax error''))"
  by (simp add: sample_db_def customer_table_def obrien_query_unparsed)

text \<open>
  Claim C5, as stated: the validator never raises and answers false when the lookup
  fails. It fails for the name O'Brien: the quote ends the literal early, the engine
  rejects the statement, and the exception reaches the caller.
\<close>

theorem customer_exists_raises_counterexample:
  "customer_exists sample_python sample_db obrien (ascii ''harris'')
     = Inl (Raise OperationalError (ascii ''near: syntax error''))
   \<and> customer_exists sample_python sample_db obrien (ascii ''harris'') \<noteq> Inr False"
  by (simp add: customer_exists_raise[OF obrien_run])

text \<open>
  Claim C5, amended. The validator has no exception handling: when the lookup raises,
  whatever the names, the same exception reaches the caller. When the lookup returns the
  row of an EXISTS statement, the validator returns the boolean the row holds.
\<close>

theorem customer_exists_propagates:
  "(db_run d (exists_query (str_title p first_name) (str_title p last_name)) = Inl e
      \<longrightarrow> customer_exists p d first_name last_name = Inl e)
   \<and> (db_run d (exists_query (str_title p first_name) (str_title p last_name)) = Inr (exists_answer b)
      \<longrightarrow> customer_exists p d first_name last_name = Inr b)"
  using customer_exists_raise[of d p first_name last_name e]
        customer_exists_answer[of d p first_name last_name b]
  by blast

theorem customer_exists_propagates_witness:
  "db_run broken_db (exists_query (str_title sample_python (ascii ''ann'')) (str_title sample_python (ascii ''lee'')))
     = Inl (Raise OperationalError (ascii ''unable to open database file''))
   \<and> customer_exists sample_python broken_db (ascii ''ann'') (ascii ''lee'')
     = Inl (Raise OperationalError (ascii ''unable to open database file''))
   \<and> db_run sample_db (exists_query (str_title sample_python (ascii ''john''))
        (str_title sample_python (ascii ''doe''))) = Inr (exists_answer False)
   \<and> customer_exists sample_python sample_db (ascii ''john'') (ascii ''doe'') = Inr False"
proof -
  have r: "db_run broken_db (exists_query (str_title sample_python (ascii ''ann''))
             (str_title sample_python (ascii ''lee'')))
           = Inl (Raise OperationalError (ascii ''unable to open database file''))"
    by (simp add: broken_db_def)
  have a: "customer_exists sample_python broken_db (ascii ''ann'') (ascii ''lee'')
             = Inl (Raise OperationalError (ascii ''unable to open database file''))"
    using customer_exists_propagates[of broken_db sample_python "ascii ''ann''" "ascii ''lee''"
            "Raise OperationalError (ascii ''unable to open database file'')"] r
    by blast
  have s: "db_run sample_db (exists_query (str_title sample_python (ascii ''john''))
             (str_title sample_python (ascii ''doe''))) = Inr (exists_answer False)"
    using john_doe_answer by (simp add: john_doe_rows)
  have b: "customer_exists sample_python sample_db (ascii ''john'') (ascii ''doe'') = Inr False"
    using customer_exists_propagates[of sample_db sample_python "ascii ''john''" "ascii ''doe''" _ False] s
    by blast
  from r a s b show ?thesis
    by blast
qed

section \<open>Listing threads\<close>

lemma sorted_reverse_descending:
  "sorted_wrt (\<lambda>a b. k b \<le> k a) (sorted_reverse k xs)"
proof -
  have "sorted (map k (sort_key k (rev xs)))"
    by (rule sorted_sort_key)
  then have "sorted_wrt (\<lambda>a b. k a \<le> k b) (sort_key k (rev xs))"
    by (simp add: sorted_map)
  then show ?thesis
    by (simp add: sorted_reverse_def sorted_wrt_rev)
qed

lemma sorted_reverse_mset: "mset (sorted_reverse k xs) = mset xs"
  by (simp add: sorted_reverse_def)

lemma sorted_reverse_stable:
  "filter (\<lambda>y. k y = v) (sorted_reverse k xs) = filter (\<lambda>y. k y = v) xs"
  by (simp add: sorted_reverse_def rev_filter[symmetric] sort_key_stable)

lemma info_thread_id_metadata: "info_thread_id (get_thread_metadata reg tid) = tid"
  by (simp add: get_thread_metadata_def Let_def split: option.splits)

text \<open>
  Claim C8. For every registry and every limit from 1 to 100 and offset from 0 (the
  bounds the endpoint declares), GET /threads answers with the thread infos of exactly
  the ids at positions offset to offset + limit of the full list of ids sorted by last
  activity, latest first, and a total equal to the size of the registry. The sorted list
  holds every id of the registry once per entry and descends in last activity.
\<close>

theorem list_threads_slice:
  assumes "1 \<le> lim" and "lim \<le> 100" and "0 \<le> off"
  shows "\<exists>r. list_threads reg lim off = Inr r
           \<and> map info_thread_id (threads r) = take (nat lim) (drop (nat off) (sorted_threads reg))
           \<and> total r = length reg
           \<and> mset (sorted_threads reg) = mset (map fst reg)
           \<and> sorted_wrt (\<lambda>a b. activity_key reg b \<le> activity_key reg a) (sorted_threads reg)"
proof -
  have ids: "map (info_thread_id \<circ> get_thread_metadata reg) ts = ts" for ts
    by (induction ts) (simp_all add: info_thread_id_metadata)
  have "mset (sorted_threads reg) = mset (map fst reg)"
    unfolding sorted_threads_def by (rule sorted_reverse_mset)
  moreover have "sorted_wrt (\<lambda>a b. activity_key reg b \<le> activity_key reg a) (sorted_threads reg)"
    unfolding sorted_threads_def by (rule sorted_reverse_descending)
  ultimately show ?thesis
    using assms by (simp add: list_threads_def Let_def ids del: mset_map)
qed

theorem list_threads_slice_witness:
  "(1::int) \<le> 2 \<and> (2::int) \<le> 100 \<and> (0::int) \<le> 1
   \<and> sorted_threads three_threads = [ascii ''b'', ascii ''a'', ascii ''c'']
   \<and> (\<exists>r. list_threads three_threads 2 1 = Inr r
          \<and> map info_thread_id (threads r) = [ascii ''a'', ascii ''c'']
          \<and> total r = 3)"
proof -
  have s: "sorted_threads three_threads = [ascii ''b'', ascii ''a'', ascii ''c'']"
    by (simp add: sorted_threads_def sorted_reverse_def three_threads_def activity_key_def ascii_inj)
  have "\<exists>r. list_threads three_threads 2 1 = Inr r
           \<and> map info_thread_id (threads r) = take (nat 2) (drop (nat 1) (sorted_threads three_threads))
           \<and> total r = length three_threads
           \<and> mset (sorted_threads three_threads) = mset (map fst three_threads)
           \<and> sorted_wrt (\<lambda>a b. activity_key three_threads b \<le> activity_key three_threads a)
                (sorted_threads three_threads)"
    by (rule list_threads_slice) simp_all
  then obtain r where r: "list_threads three_threads 2 1 = Inr r"
      "map info_thread_id (threads r) = take (nat 2) (drop (nat 1) (sorted_threads three_threads))"
      "total r = length three_threads"
    by blast
  have "map info_thread_id (threads r) = [ascii ''a'', ascii ''c'']"
    using r(2) by (simp add: s)
  moreover have "total r = 3"
    using r(3) by (simp add: three_threads_def)
  ultimately show ?thesis
    using r(1) s by simp
qed

section \<open>The chat endpoint\<close>

lemma chat_run_calls:
  "snd (chat_run w reg request)
     = [\<lparr>inv_context = get_default_context (agent_db w),
         inv_thread_id = resolve_thread_id w request,
         inv_message = req_message request\<rparr>]"
  by (simp add: chat_run_def Let_def)

lemma chat_by_outcome:
  "chat w reg request
     = complete_chat w (register_request w reg request) (resolve_thread_id w request)
         (req_message request)
         (agent_stream w (get_default_context (agent_db w)) (resolve_thread_id w request)
            (req_message request))"
  by (simp add: chat_def chat_run_def Let_def)

text \<open>
  Claim C9. Whatever the registry holds for the thread, POST /chat makes one call of the
  invocation loop, with the thread id of the request, its message, and a context whose
  two names are empty and whose gate flag is false; the response is computed from what
  that call gives (HTTP 504 when it times out, the error's HTTP form when it raises).
\<close>

theorem chat_uses_default_context:
  "snd (chat_run w reg request)
     = [\<lparr>inv_context = \<lparr>db = agent_db w, user_first_name = [], user_last_name = [],
                         has_valid_name = False\<rparr>,
         inv_thread_id = resolve_thread_id w request,
         inv_message = req_message request\<rparr>]
   \<and> chat w reg request
       = complete_chat w (register_request w reg request) (resolve_thread_id w request)
           (req_message request)
           (agent_stream w
              \<lparr>db = agent_db w, user_first_name = [], user_last_name = [], has_valid_name = False\<rparr>
              (resolve_thread_id w request) (req_message request))
   \<and> snd (complete_chat w reg1 tid text_sent TimedOut) = Inl (HTTPException 504 timeout_detail)
   \<and> snd (complete_chat w reg1 tid text_sent (Raised e)) = Inl (http_of_error (builtins w) e)"
  using chat_run_calls[of w reg request] chat_by_outcome[of w reg request]
  by (simp add: get_default_context_def complete_chat_def)

lemma chat_timed_out:
  assumes "agent_stream w (get_default_context (agent_db w)) (resolve_thread_id w request)
             (req_message request) = TimedOut"
  shows "chat w reg request
           = (if map_of reg (resolve_thread_id w request) = None
              then update_thread_registry reg (now_before w) (resolve_thread_id w request)
                     (Some (generate_thread_title (builtins w) (req_message request))) True None
              else update_thread_registry reg (now_before w) (resolve_thread_id w request) None False None,
              Inl (HTTPException 504 timeout_detail))"
  unfolding chat_by_outcome assms
  by (simp add: complete_chat_def register_request_def Let_def)

text \<open>
  Claim C1, as stated: a request that times out returns 504 and leaves the registry as
  it was. It fails: the registry is written before the loop is called. For a new thread
  id the entry is there after the 504, and for a known id the last activity has moved.
\<close>

theorem chat_timeout_counterexample:
  "snd (chat slow_world [] hello_request) = Inl (HTTPException 504 timeout_detail)
   \<and> fst (chat slow_world [] hello_request) \<noteq> []
   \<and> snd (chat slow_world [(ascii ''t1'', old_entry)] hello_request) = Inl (HTTPException 504 timeout_detail)
   \<and> fst (chat slow_world [(ascii ''t1'', old_entry)] hello_request)
       = [(ascii ''t1'', old_entry\<lparr>last_activity := 10\<rparr>)]
   \<and> fst (chat slow_world [(ascii ''t1'', old_entry)] hello_request) \<noteq> [(ascii ''t1'', old_entry)]"
proof -
  have t: "agent_stream slow_world (get_default_context (agent_db slow_world))
             (resolve_thread_id slow_world hello_request) (req_message hello_request) = TimedOut"
    by (simp add: slow_world_def)
  have i: "resolve_thread_id slow_world hello_request = ascii ''t1''"
    by (simp add: resolve_thread_id_def hello_request_def ascii_def)
  have n: "now_before slow_world = 10"
    by (simp add: slow_world_def)
  show ?thesis
    unfolding chat_timed_out[OF t] i n
    by (simp add: update_thread_registry_def old_entry_def)
qed

text \<open>
  Claim C1, amended. A request whose invocation times out returns HTTP 504, and the
  registry is the one the write before the invocation left, with nothing written after
  it: an entry already there keeps its creation time, title and message trace and has
  its last activity set to the time of the request; for a new id an entry is created
  with the generated title and an empty message trace; every other entry is unchanged.
\<close>

theorem chat_timeout_registry:
  assumes "agent_stream w (get_default_context (agent_db w)) (resolve_thread_id w request)
             (req_message request) = TimedOut"
  shows "snd (chat w reg request) = Inl (HTTPException 504 timeout_detail)
         \<and> map_of (fst (chat w reg request)) (resolve_thread_id w request)
             = Some (case map_of reg (resolve_thread_id w request) of
                       Some e \<Rightarrow> e\<lparr>last_activity := now_before w\<rparr>
                     | None \<Rightarrow> \<lparr>created_at = now_before w, last_activity = now_before w,
                                title = generate_thread_title (builtins w) (req_message request),
                                messages = []\<rparr>)
         \<and> (\<forall>other. other \<noteq> resolve_thread_id w request
               \<longrightarrow> map_of (fst (chat w reg request)) other = map_of reg other)"
proof -
  have "generate_thread_title (builtins w) (req_message request) \<noteq> []"
    by (simp add: generate_is_spec spec_title_not_empty)
  then show ?thesis
    unfolding chat_timed_out[OF assms]
    by (auto simp: update_thread_registry_def map_of_dict_set_same map_of_dict_set_other Let_def
             split: option.splits)
qed

theorem chat_timeout_registry_witness:
  "agent_stream slow_world (get_default_context (agent_db slow_world))
     (resolve_thread_id slow_world hello_request) (req_message hello_request) = TimedOut
   \<and> snd (chat slow_world [(ascii ''t1'', old_entry)] hello_request) = Inl (HTTPException 504 timeout_detail)
   \<and> map_of (fst (chat slow_world [(ascii ''t1'', old_entry)] hello_request)) (ascii ''t1'')
       = Some (old_entry\<lparr>last_activity := 10\<rparr>)
   \<and> ascii ''t0'' \<noteq> resolve_thread_id slow_world hello_request
   \<and> map_of (fst (chat slow_world [(ascii ''t1'', old_entry)] hello_request)) (ascii ''t0'') = None"
proof -
  have t: "agent_stream slow_world (get_default_context (agent_db slow_world))
             (resolve_thread_id slow_world hello_request) (req_message hello_request) = TimedOut"
    by (simp add: slow_world_def)
  have i: "resolve_thread_id slow_world hello_request = ascii ''t1''"
    by (simp add: resolve_thread_id_def hello_request_def ascii_def)
  have n: "now_before slow_world = 10"
    by (simp add: slow_world_def)
  note th = chat_timeout_registry[OF t, of "[(ascii ''t1'', old_entry)]"]
  have a: "snd (chat slow_world [(ascii ''t1'', old_entry)] hello_request) = Inl (HTTPException 504 timeout_detail)"
    using th by blast
  have b: "map_of (fst (chat slow_world [(ascii ''t1'', old_entry)] hello_request)) (ascii ''t1'')
             = Some (old_entry\<lparr>last_activity := 10\<rparr>)"
    using th by (simp add: i n)
  have c: "ascii ''t0'' \<noteq> resolve_thread_id slow_world hello_request"
    by (simp add: i ascii_inj)
  have d: "map_of (fst (chat slow_world [(ascii ''t1'', old_entry)] hello_request)) (ascii ''t0'') = None"
    using th c by (simp add: i ascii_inj)
  from t a b c d show ?thesis
    by blast
qed

section \<open>The conversation gate\<close>

lemma model_call_unverified:
  "model_call rest (ctx\<lparr>has_valid_name := False\<rparr>) (\<lambda>r. (tools r, system_prompt r))
     = ([update_user_name_tool],
        Some (prompt_head @ rest (db ctx) (user_first_name ctx) (user_last_name ctx)))"
  by (simp add: model_call_def model_request_def require_valid_name_def dynamic_prompt_hook_def
        dynamic_system_prompt_def Let_def)

lemma default_context_unverified:
  "get_default_context d = (get_default_context d)\<lparr>has_valid_name := False\<rparr>"
  by (simp add: get_default_context_def)

lemma prompt_head_not_directive: "prompt_head @ r \<noteq> name_directive"
  by (simp add: prompt_head_def name_directive_def ascii_def)

lemma chat_calls_contexts:
  "map inv_context (chat_calls w reg requests)
     = replicate (length requests) (get_default_context (agent_db w))"
  by (induction requests arbitrary: reg) (simp_all add: chat_run_calls)

text \<open>
  Claim C2. While the gate flag is false the model is given the name-update tool alone,
  as claimed, but not the name-collection directive. The gate hook writes the directive
  into the request and hands the request to its handler, which is the prompt hook; that
  hook overwrites the system prompt with the formatted SQL-assistant template, whose
  first line differs from the directive. So does every model call of POST /chat.
\<close>

theorem model_call_prompt_overwritten:
  "model_call rest (ctx\<lparr>has_valid_name := False\<rparr>) (\<lambda>r. (tools r, system_prompt r))
     = ([update_user_name_tool],
        Some (prompt_head @ rest (db ctx) (user_first_name ctx) (user_last_name ctx)))
   \<and> prompt_head @ rest (db ctx) (user_first_name ctx) (user_last_name ctx) \<noteq> name_directive
   \<and> require_valid_name (model_request (ctx\<lparr>has_valid_name := False\<rparr>))
         (\<lambda>r. (tools r, system_prompt r))
       = ([update_user_name_tool], Some name_directive)
   \<and> map (\<lambda>c. model_call rest (inv_context c) (\<lambda>r. (tools r, system_prompt r)))
         (snd (chat_run w reg request))
       = [([update_user_name_tool], Some (prompt_head @ rest (agent_db w) [] []))]"
proof -
  have a: "model_call rest (get_default_context (agent_db w)) (\<lambda>r. (tools r, system_prompt r))
             = ([update_user_name_tool], Some (prompt_head @ rest (agent_db w) [] []))"
    using model_call_unverified[of rest "get_default_context (agent_db w)"]
    by (simp add: get_default_context_def)
  have b: "require_valid_name (model_request (ctx\<lparr>has_valid_name := False\<rparr>))
             (\<lambda>r. (tools r, system_prompt r))
           = ([update_user_name_tool], Some name_directive)"
    by (simp add: require_valid_name_def model_request_def Let_def)
  show ?thesis
    by (simp add: model_call_unverified prompt_head_not_directive b chat_run_calls a)
qed

text \<open>
  Claim C3. The flag the gate reads is the one of the context POST /chat passes to the
  invocation loop, and POST /chat builds that context anew for every request, with the
  flag false. On the thread t1 the first message gives the name Frank Harris, which is
  in the Customer table: the name-update tool accepts it and asks for the flag to be
  set in the graph state. The gate still reads false on that request and on the next,
  and gives the model the name-update tool alone. The same holds of every sequence of
  requests: the flag never becomes true.
\<close>

theorem gate_stays_closed_after_valid_name:
  "(\<exists>u. update_user_name sample_python sample_db (ascii ''frank'') (ascii ''harris'') (ascii ''call-1'')
          = Inr u
        \<and> upd_has_valid_name u = Some True)
   \<and> map inv_thread_id (chat_calls name_world [] [frank_request, hello_request])
       = [ascii ''t1'', ascii ''t1'']
   \<and> map (\<lambda>c. has_valid_name (inv_context c)) (chat_calls name_world [] [frank_request, hello_request])
       = [False, False]
   \<and> map (\<lambda>c. has_valid_name (inv_context c)) (chat_calls w reg requests)
       = replicate (length requests) False
   \<and> map (\<lambda>c. model_call rest (inv_context c) tools) (chat_calls w reg requests)
       = replicate (length requests) [update_user_name_tool]"
proof -
  have u: "\<exists>u. update_user_name sample_python sample_db (ascii ''frank'') (ascii ''harris'') (ascii ''call-1'')
                 = Inr u
               \<and> upd_has_valid_name u = Some True"
    by (simp add: update_user_name_def frank_harris_found and_then_def)
  have t: "map inv_thread_id (chat_calls name_world [] [frank_request, hello_request])
             = [ascii ''t1'', ascii ''t1'']"
    by (simp add: chat_run_calls resolve_thread_id_def frank_request_def hello_request_def ascii_def)
  have c: "map (\<lambda>c. f (inv_context c)) (chat_calls w' reg' requests')
             = replicate (length requests') (f (get_default_context (agent_db w')))"
    for f :: "RuntimeContext \<Rightarrow> 'b" and w' reg' requests'
    using chat_calls_contexts[of w' reg' requests', THEN arg_cong, of "map f"]
    by (simp add: comp_def)
  have g: "model_call rest (get_default_context d) tools = [update_user_name_tool]" for d
    by (simp add: model_call_def model_request_def require_valid_name_def dynamic_prompt_hook_def
          get_default_context_def Let_def)
  have f: "has_valid_name (get_default_context d) = False" for d
    by (simp add: get_default_context_def)
  have e: "map (\<lambda>c. has_valid_name (inv_context c)) (chat_calls name_world [] [frank_request, hello_request])
             = [False, False]"
    unfolding c f by simp
  have a: "map (\<lambda>c. has_valid_name (inv_context c)) (chat_calls w reg requests)
             = replicate (length requests) False"
    unfolding c f by (rule refl)
  have m: "map (\<lambda>c. model_call rest (inv_context c) tools) (chat_calls w reg requests)
             = replicate (length requests) [update_user_name_tool]"
    using c[of "\<lambda>ctx. model_call rest ctx tools" w reg requests] by (simp add: g)
  from u t e a m show ?thesis
    by (intro conjI)
qed

end
